theory Spec2Isabelle
  imports Main "HOL-Library.Word"
begin

unbundle bit_operations_syntax

section \<open>The worktree NIFs of gitrekt (apps/gitrekt/c_src/worktree.c)\<close>

text \<open>
  The file holds three C functions: the resource destructor \<open>geef_worktree_free\<close> and the
  two NIFs \<open>geef_worktree_add\<close> and \<open>geef_worktree_prune\<close>. They are straight-line code
  with early returns, and everything they do besides returning a term is a call into the
  Erlang runtime (\<open>enif_*\<close>) or into libgit2 (\<open>git_*\<close>). The model returns the term
  together with the list, in program order, of the calls that allocate, terminate, keep or
  release a resource or a buffer and of the calls into the engine, each listed whether it
  succeeds or fails. Calls that only inspect an argument or build the returned term are
  not listed. The outcome of every fallible call is read from a record of oracles, so
  that each branch of the source can be reached.
\<close>

subsection \<open>Data\<close>

text \<open>Engine-level pointers are opaque; a natural number stands for the address.\<close>

type_synonym git_repository = nat
type_synonym git_worktree = nat
type_synonym git_reference = nat

text \<open>\<open>geef_repository\<close> wraps the repository pointer (field \<open>repo\<close>, read at lines 62, 69).\<close>

record geef_repository =
  repo :: git_repository

text \<open>\<open>geef_worktree\<close>: the engine worktree and the owning repository resource
  (fields \<open>worktree\<close> and \<open>repo\<close> of the source; the second is named \<open>owner\<close> here,
  the name \<open>repo\<close> being taken by the record above).\<close>

record geef_worktree =
  worktree :: git_worktree
  owner :: geef_repository

text \<open>A resource object carries its resource type: \<open>geef_repository_type\<close> or
  \<open>geef_worktree_type\<close>.\<close>

datatype resource =
    Repository_resource geef_repository
  | Worktree_resource geef_worktree

text \<open>Erlang terms, as far as the NIFs look at them or build them.\<close>

datatype erl_term =
    Atom string
  | Binary string
  | Integer int
  | Resource resource
  | Tuple2 erl_term erl_term

definition atoms_ok :: erl_term where
  "atoms_ok = Atom ''ok''"

definition atoms_error :: erl_term where
  "atoms_error = Atom ''error''"

definition atoms_undefined :: erl_term where
  "atoms_undefined = Atom ''undefined''"

text \<open>
  Modelled from the spec: \<open>geef_error\<close> and \<open>geef_oom\<close> are helpers of geef.c, which is
  not among the sources. The spec describes what they build as error values: an error
  carrying the engine's message, if the engine left one (\<open>Geef_error\<close>), and the
  out-of-memory error (\<open>Geef_oom\<close>). Both receive the environment only. They are kept as
  constructors of their own, so nothing is assumed about the shape of the terms.

  The other two constructors are what the source itself hands back to the runtime: a term
  it built, and \<open>enif_make_badarg\<close>, which makes the call raise \<open>badarg\<close>.
\<close>

datatype nif_return =
    Term erl_term
  | Badarg
  | Geef_error "string option"
  | Geef_oom

text \<open>The three input buffers of \<open>geef_worktree_add\<close>.\<close>

datatype buffer = Name_bin | Path_bin | Ref_bin

text \<open>The two resource objects \<open>geef_worktree_add\<close> touches: the worktree object it
  allocates, and the repository object found in \<open>argv[0]\<close>.\<close>

datatype object = Worktree_object | Repository_object geef_repository

text \<open>\<open>git_worktree_add_options\<close>: \<open>version\<close>, \<open>lock\<close> and \<open>ref\<close>
  (the field the commented-out line 65 assigns).\<close>

record git_worktree_add_options =
  add_version :: nat
  add_lock :: int
  add_ref :: "git_reference option"

definition GIT_WORKTREE_ADD_OPTIONS_INIT :: git_worktree_add_options where
  "GIT_WORKTREE_ADD_OPTIONS_INIT = \<lparr>add_version = 1, add_lock = 0, add_ref = None\<rparr>"

text \<open>\<open>git_worktree_prune_options\<close>: \<open>version\<close> and the 32-bit \<open>flags\<close>.\<close>

record git_worktree_prune_options =
  prune_version :: nat
  prune_flags :: "32 word"

definition GIT_WORKTREE_PRUNE_OPTIONS_INIT :: git_worktree_prune_options where
  "GIT_WORKTREE_PRUNE_OPTIONS_INIT = \<lparr>prune_version = 1, prune_flags = 0\<rparr>"

definition GIT_WORKTREE_PRUNE_VALID :: "32 word" where
  "GIT_WORKTREE_PRUNE_VALID = push_bit 0 1"

text \<open>The calls into the runtime and the engine that the functions make.\<close>

datatype event =
    Enif_alloc_resource object
  | Enif_make_resource object
  | Enif_release_resource object
  | Enif_keep_resource object
  | Geef_terminate_binary buffer
  | Enif_release_binary buffer
  | Git_reference_lookup git_repository string
  | Git_reference_free git_reference
  | Git_worktree_add git_repository string string git_worktree_add_options
  | Git_worktree_free git_worktree
  | Git_worktree_prune git_worktree git_worktree_prune_options

text \<open>
  The outcomes the code cannot decide by itself: the version of libgit2 the file is
  compiled against, whether each allocation succeeds, and what the engine answers.
  An engine call that fails answers \<open>Inl\<close> with the message \<open>giterr_last\<close> would give.
\<close>

record world =
  LIBGIT2_VER_MAJOR :: nat
  LIBGIT2_VER_MINOR :: nat
  geef_string_to_bin :: "string \<Rightarrow> string option"
  enif_alloc_resource :: bool
  geef_terminate_binary :: "buffer \<Rightarrow> bool"
  git_reference_lookup :: "git_repository \<Rightarrow> string \<Rightarrow> string option + git_reference"
  git_worktree_add ::
    "git_repository \<Rightarrow> string \<Rightarrow> string \<Rightarrow> git_worktree_add_options \<Rightarrow> string option + git_worktree"
  git_worktree_prune :: "git_worktree \<Rightarrow> git_worktree_prune_options \<Rightarrow> string option + unit"

subsection \<open>Runtime helpers\<close>

text \<open>\<open>enif_get_resource\<close> with \<open>geef_repository_type\<close> and with \<open>geef_worktree_type\<close>.\<close>

fun enif_get_repository :: "erl_term \<Rightarrow> geef_repository option" where
  "enif_get_repository (Resource (Repository_resource r)) = Some r"
| "enif_get_repository _ = None"

fun enif_get_worktree :: "erl_term \<Rightarrow> geef_worktree option" where
  "enif_get_worktree (Resource (Worktree_resource h)) = Some h"
| "enif_get_worktree _ = None"

fun enif_inspect_binary :: "erl_term \<Rightarrow> string option" where
  "enif_inspect_binary (Binary b) = Some b"
| "enif_inspect_binary _ = None"

definition enif_is_identical :: "erl_term \<Rightarrow> erl_term \<Rightarrow> bool" where
  "enif_is_identical a b = (a = b)"

text \<open>\<open>(char *) bin.data\<close> of a terminated binary, read as a C string: the bytes before
  the first NUL.\<close>

definition c_string :: "string \<Rightarrow> string" where
  "c_string b = takeWhile (\<lambda>c. c \<noteq> CHR 0x00) b"

text \<open>The preprocessor test of lines 17 and 94.\<close>

definition version_gate :: "world \<Rightarrow> bool" where
  "version_gate w = (LIBGIT2_VER_MAJOR w < 1 \<and> LIBGIT2_VER_MINOR w < 27)"

text \<open>Lines 18 to 21 and 95 to 98, the body both NIFs have under the gate.\<close>

definition version_required :: "world \<Rightarrow> nif_return \<times> event list" where
  "version_required w =
     (case geef_string_to_bin w ''libgit2 version >= 0.27.x required'' of
        None \<Rightarrow> (Geef_error None, [])
      | Some bin \<Rightarrow> (Term (Tuple2 atoms_ok (Binary bin)), []))"

subsection \<open>geef_worktree_free\<close>

definition geef_worktree_free :: "geef_worktree \<Rightarrow> event list" where
  "geef_worktree_free cd =
     [Enif_release_resource (Repository_object (owner cd)),
      Git_worktree_free (worktree cd)]"

subsection \<open>geef_worktree_add\<close>

text \<open>Lines 60 to 87: the reference lookup, the engine call and the construction of
  the result. \<open>ref_name\<close> is \<open>Some\<close> exactly when \<open>override\<close> is set; \<open>es\<close> are the
  calls made so far.\<close>

definition worktree_add_create ::
  "world \<Rightarrow> geef_repository \<Rightarrow> string \<Rightarrow> string \<Rightarrow> string option \<Rightarrow> event list
     \<Rightarrow> nif_return \<times> event list" where
  "worktree_add_create w r name_bin path_bin ref_name es =
     (let opts = GIT_WORKTREE_ADD_OPTIONS_INIT;
          looked =
            (case ref_name of
               None \<Rightarrow> Inr (None, es)
             | Some ref_bin \<Rightarrow>
                 (case git_reference_lookup w (repo r) (c_string ref_bin) of
                    Inl msg \<Rightarrow>
                      Inl (Geef_error msg, es @ [Git_reference_lookup (repo r) (c_string ref_bin)])
                  | Inr rf \<Rightarrow>
                      Inr (Some rf,
                        es @ [Git_reference_lookup (repo r) (c_string ref_bin),
                              Enif_release_binary Ref_bin])))
      in case looked of
           Inl ret \<Rightarrow> ret
         | Inr (rf, es1) \<Rightarrow>
             (let es2 = es1 @ [Git_worktree_add (repo r) (c_string name_bin) (c_string path_bin) opts]
              in case git_worktree_add w (repo r) (c_string name_bin) (c_string path_bin) opts of
                   Inl msg \<Rightarrow> (Geef_error msg, es2)
                 | Inr wt \<Rightarrow>
                     (let es3 = es2 @ [Enif_release_binary Name_bin, Enif_release_binary Path_bin];
                          es4 =
                            (case rf of
                               None \<Rightarrow> es3
                             | Some rf' \<Rightarrow> es3 @ [Git_reference_free rf', Enif_release_binary Ref_bin])
                      in (Term (Tuple2 atoms_ok
                                  (Resource (Worktree_resource \<lparr>worktree = wt, owner = r\<rparr>))),
                          es4 @ [Enif_make_resource Worktree_object,
                                 Enif_release_resource Worktree_object,
                                 Enif_keep_resource (Repository_object r)]))))"

text \<open>The whole NIF; \<open>argv0\<close> to \<open>argv3\<close> are its four arguments.\<close>

definition geef_worktree_add ::
  "world \<Rightarrow> erl_term \<Rightarrow> erl_term \<Rightarrow> erl_term \<Rightarrow> erl_term \<Rightarrow> nif_return \<times> event list" where
  "geef_worktree_add w argv0 argv1 argv2 argv3 =
     (if version_gate w then version_required w
      else
       (case enif_get_repository argv0 of
          None \<Rightarrow> (Badarg, [])
        | Some r \<Rightarrow>
       (if \<not> enif_alloc_resource w then (Geef_oom, [Enif_alloc_resource Worktree_object])
        else
       (let es0 = [Enif_alloc_resource Worktree_object] in
       (case enif_inspect_binary argv1 of
          None \<Rightarrow> (Badarg, es0)
        | Some name_bin \<Rightarrow>
       (if \<not> geef_terminate_binary w Name_bin
        then (Geef_oom, es0 @ [Geef_terminate_binary Name_bin])
        else
       (let es1 = es0 @ [Geef_terminate_binary Name_bin] in
       (case enif_inspect_binary argv2 of
          None \<Rightarrow> (Badarg, es1)
        | Some path_bin \<Rightarrow>
       (if \<not> geef_terminate_binary w Path_bin
        then (Geef_oom, es1 @ [Geef_terminate_binary Path_bin])
        else
       (let es2 = es1 @ [Geef_terminate_binary Path_bin] in
       (if enif_is_identical argv3 atoms_undefined then
          worktree_add_create w r name_bin path_bin None es2
        else
         (case enif_inspect_binary argv3 of
            None \<Rightarrow> (Badarg, es2)
          | Some ref_bin \<Rightarrow>
             (if \<not> geef_terminate_binary w Ref_bin
              then (Term atoms_error, es2 @ [Geef_terminate_binary Ref_bin])
              else
                worktree_add_create w r name_bin path_bin (Some ref_bin)
                  (es2 @ [Geef_terminate_binary Ref_bin]))))))))))))))"

subsection \<open>geef_worktree_prune\<close>

definition geef_worktree_prune :: "world \<Rightarrow> erl_term \<Rightarrow> nif_return \<times> event list" where
  "geef_worktree_prune w argv0 =
     (if version_gate w then version_required w
      else
        case enif_get_worktree argv0 of
          None \<Rightarrow> (Badarg, [])
        | Some h \<Rightarrow>
            (let opts = GIT_WORKTREE_PRUNE_OPTIONS_INIT;
                 opts = opts\<lparr>prune_flags := prune_flags opts OR GIT_WORKTREE_PRUNE_VALID\<rparr>
             in case git_worktree_prune w (worktree h) opts of
                  Inl msg \<Rightarrow> (Geef_error msg, [Git_worktree_prune (worktree h) opts])
                | Inr _ \<Rightarrow> (Term atoms_ok, [Git_worktree_prune (worktree h) opts])))"

subsection \<open>Observations on results and calls\<close>

text \<open>An error value: the \<open>badarg\<close> exception, what the two error helpers build, the
  atom \<open>error\<close>, or a pair tagged with it.\<close>

fun is_error :: "nif_return \<Rightarrow> bool" where
  "is_error Badarg = True"
| "is_error (Geef_error m) = True"
| "is_error Geef_oom = True"
| "is_error (Term (Atom a)) = (a = ''error'')"
| "is_error (Term (Tuple2 (Atom a) t)) = (a = ''error'')"
| "is_error (Term t) = False"

text \<open>The worktree handles reachable from a returned value.\<close>

fun term_handles :: "erl_term \<Rightarrow> geef_worktree list" where
  "term_handles (Resource (Worktree_resource h)) = [h]"
| "term_handles (Tuple2 a b) = term_handles a @ term_handles b"
| "term_handles t = []"

fun returned_handles :: "nif_return \<Rightarrow> geef_worktree list" where
  "returned_handles (Term t) = term_handles t"
| "returned_handles r = []"


text \<open>A call of the engine's worktree creation whose options name a reference to start
  from.\<close>

fun passes_reference :: "event \<Rightarrow> bool" where
  "passes_reference (Git_worktree_add r n p opts) = (add_ref opts \<noteq> None)"
| "passes_reference e = False"

text \<open>
  Some stage of the creation fails: the checks of lines 29 to 58, the reference lookup of
  line 62 and the engine call of line 69, each read off its condition in the source.
\<close>

definition validation_fails :: "world \<Rightarrow> erl_term \<Rightarrow> erl_term \<Rightarrow> erl_term \<Rightarrow> erl_term \<Rightarrow> bool" where
  "validation_fails w argv0 argv1 argv2 argv3 =
     (enif_get_repository argv0 = None \<or> \<not> enif_alloc_resource w \<or>
      enif_inspect_binary argv1 = None \<or> \<not> geef_terminate_binary w Name_bin \<or>
      enif_inspect_binary argv2 = None \<or> \<not> geef_terminate_binary w Path_bin \<or>
      (\<not> enif_is_identical argv3 atoms_undefined \<and>
       (enif_inspect_binary argv3 = None \<or> \<not> geef_terminate_binary w Ref_bin)))"

definition resolution_fails :: "world \<Rightarrow> erl_term \<Rightarrow> erl_term \<Rightarrow> bool" where
  "resolution_fails w argv0 argv3 =
     (case (enif_get_repository argv0, enif_inspect_binary argv3) of
        (Some r, Some ref_bin) \<Rightarrow>
          \<not> enif_is_identical argv3 atoms_undefined \<and>
          isl (git_reference_lookup w (repo r) (c_string ref_bin))
      | _ \<Rightarrow> False)"

definition engine_add_fails :: "world \<Rightarrow> erl_term \<Rightarrow> erl_term \<Rightarrow> erl_term \<Rightarrow> bool" where
  "engine_add_fails w argv0 argv1 argv2 =
     (case (enif_get_repository argv0, enif_inspect_binary argv1, enif_inspect_binary argv2) of
        (Some r, Some name_bin, Some path_bin) \<Rightarrow>
          isl (git_worktree_add w (repo r) (c_string name_bin) (c_string path_bin)
                 GIT_WORKTREE_ADD_OPTIONS_INIT)
      | _ \<Rightarrow> False)"

definition creation_fails :: "world \<Rightarrow> erl_term \<Rightarrow> erl_term \<Rightarrow> erl_term \<Rightarrow> erl_term \<Rightarrow> bool" where
  "creation_fails w argv0 argv1 argv2 argv3 =
     (validation_fails w argv0 argv1 argv2 argv3 \<or> resolution_fails w argv0 argv3 \<or>
      engine_add_fails w argv0 argv1 argv2)"

subsection \<open>Sample inputs\<close>

text \<open>
  A build against libgit2 0.28 in which every allocation succeeds, the repository has the
  one reference \<open>refs/heads/master\<close>, the engine creates every worktree it is asked for,
  and pruning is refused unless the flag \<open>GIT_WORKTREE_PRUNE_VALID\<close> is set.
\<close>

definition sample_world :: world where
  "sample_world =
     \<lparr>LIBGIT2_VER_MAJOR = 0, LIBGIT2_VER_MINOR = 28,
      geef_string_to_bin = (\<lambda>s. Some s),
      enif_alloc_resource = True,
      geef_terminate_binary = (\<lambda>b. True),
      git_reference_lookup =
        (\<lambda>r n. if n = ''refs/heads/master'' then Inr 7 else Inl (Some ''reference not found'')),
      git_worktree_add = (\<lambda>r n p opts. Inr 42),
      git_worktree_prune =
        (\<lambda>wt opts. if bit (prune_flags opts) 0 then Inr ()
                   else Inl (Some ''not pruning valid working tree''))\<rparr>"

text \<open>The same build against libgit2 0.26.\<close>

definition old_world :: world where
  "old_world = sample_world\<lparr>LIBGIT2_VER_MINOR := 26\<rparr>"

text \<open>The engine refuses to create the worktree.\<close>

definition refusing_world :: world where
  "refusing_world =
     sample_world\<lparr>git_worktree_add := (\<lambda>r n p opts. Inl (Some ''worktree already exists''))\<rparr>"

text \<open>Terminating the reference name runs out of memory; terminating the name does.\<close>

definition ref_oom_world :: world where
  "ref_oom_world = sample_world\<lparr>geef_terminate_binary := (\<lambda>b. b \<noteq> Ref_bin)\<rparr>"

definition name_oom_world :: world where
  "name_oom_world = sample_world\<lparr>geef_terminate_binary := (\<lambda>b. b \<noteq> Name_bin)\<rparr>"

text \<open>The directory of the worktree is gone: the engine prunes it whatever the flags.\<close>

definition deleted_world :: world where
  "deleted_world = sample_world\<lparr>git_worktree_prune := (\<lambda>wt opts. Inr ())\<rparr>"

text \<open>The directory is gone and the worktree is locked: the engine refuses to prune it
  unless the flag for locked worktrees (bit 1) is set.\<close>

definition locked_world :: world where
  "locked_world =
     sample_world\<lparr>git_worktree_prune :=
       (\<lambda>wt opts. if bit (prune_flags opts) 1 then Inr ()
                  else Inl (Some ''not pruning locked working tree''))\<rparr>"

definition sample_repo :: erl_term where
  "sample_repo = Resource (Repository_resource \<lparr>repo = 1\<rparr>)"

definition sample_handle :: geef_worktree where
  "sample_handle = \<lparr>worktree = 42, owner = \<lparr>repo = 1\<rparr>\<rparr>"

section \<open>Properties\<close>

lemmas sample_defs =
  sample_world_def old_world_def refusing_world_def ref_oom_world_def name_oom_world_def
  sample_repo_def sample_handle_def

lemmas nif_defs =
  geef_worktree_add_def worktree_add_create_def geef_worktree_prune_def version_gate_def
  version_required_def enif_is_identical_def c_string_def atoms_ok_def atoms_error_def
  atoms_undefined_def GIT_WORKTREE_ADD_OPTIONS_INIT_def GIT_WORKTREE_PRUNE_OPTIONS_INIT_def
  GIT_WORKTREE_PRUNE_VALID_def

subsection \<open>Lines 60 to 87\<close>

lemma create_fails:
  assumes "(case rn of None \<Rightarrow> False
            | Some rb \<Rightarrow> isl (git_reference_lookup w (repo r) (c_string rb))) \<or>
           isl (git_worktree_add w (repo r) (c_string n) (c_string p)
                  GIT_WORKTREE_ADD_OPTIONS_INIT)"
  shows "is_error (fst (worktree_add_create w r n p rn es)) \<and>
         returned_handles (fst (worktree_add_create w r n p rn es)) = []"
  using assms
  by (auto simp: worktree_add_create_def Let_def split: option.splits sum.splits)

lemma create_succeeds:
  assumes "\<not> (case rn of None \<Rightarrow> False
              | Some rb \<Rightarrow> isl (git_reference_lookup w (repo r) (c_string rb)))"
    and "\<not> isl (git_worktree_add w (repo r) (c_string n) (c_string p)
                  GIT_WORKTREE_ADD_OPTIONS_INIT)"
  shows "\<not> is_error (fst (worktree_add_create w r n p rn es)) \<and>
         returned_handles (fst (worktree_add_create w r n p rn es)) \<noteq> []"
  using assms
  by (auto simp: worktree_add_create_def Let_def atoms_ok_def split: option.splits sum.splits)


text \<open>The options handed to the engine are the initial ones on every path: no call of
  \<open>geef_worktree_add\<close>, whatever its arguments, names a reference in them.\<close>

lemma create_never_passes_reference:
  "filter passes_reference (snd (worktree_add_create w r n p rn es)) = filter passes_reference es"
  by (auto simp: worktree_add_create_def Let_def GIT_WORKTREE_ADD_OPTIONS_INIT_def
        split: option.splits sum.splits)

lemma add_never_passes_reference:
  "filter passes_reference (snd (geef_worktree_add w argv0 argv1 argv2 argv3)) = []"
  by (auto simp: geef_worktree_add_def version_required_def Let_def create_never_passes_reference
        split: option.splits)

text \<open>No call that ends in an error has released the worktree object it allocated.\<close>

lemma create_failure_keeps_worktree_object:
  "is_error (fst (worktree_add_create w r n p rn es)) \<Longrightarrow>
   Enif_release_resource Worktree_object \<in> set (snd (worktree_add_create w r n p rn es)) \<Longrightarrow>
   Enif_release_resource Worktree_object \<in> set es"
  by (auto simp: worktree_add_create_def Let_def atoms_ok_def split: option.splits sum.splits)

lemma add_failure_never_releases_worktree_object:
  "is_error (fst (geef_worktree_add w argv0 argv1 argv2 argv3)) \<Longrightarrow>
   Enif_release_resource Worktree_object \<notin> set (snd (geef_worktree_add w argv0 argv1 argv2 argv3))"
  by (auto simp: geef_worktree_add_def version_required_def Let_def
        dest!: create_failure_keeps_worktree_object split: option.splits if_splits)

subsection \<open>The claims\<close>

text \<open>
  C1. A reference name that is supplied and resolved should reach the engine's worktree
  creation as the start point. The code does not do it: the assignment \<open>opts.ref = ref\<close>
  of line 65 is commented out under a \<open>TODO\<close>. With the reference \<open>refs/heads/master\<close>
  resolved to 7, the engine is still called with the initial options, \<open>add_ref = None\<close>.
\<close>

theorem resolved_reference_not_passed:
  "geef_worktree_add sample_world sample_repo (Binary ''feature-x'') (Binary ''/tmp/wt1'')
     (Binary ''refs/heads/master'') =
   (Term (Tuple2 (Atom ''ok'') (Resource (Worktree_resource sample_handle))),
    [Enif_alloc_resource Worktree_object,
     Geef_terminate_binary Name_bin, Geef_terminate_binary Path_bin,
     Geef_terminate_binary Ref_bin,
     Git_reference_lookup 1 ''refs/heads/master'',
     Enif_release_binary Ref_bin,
     Git_worktree_add 1 ''feature-x'' ''/tmp/wt1''
       \<lparr>add_version = 1, add_lock = 0, add_ref = None\<rparr>,
     Enif_release_binary Name_bin, Enif_release_binary Path_bin,
     Git_reference_free 7, Enif_release_binary Ref_bin,
     Enif_make_resource Worktree_object,
     Enif_release_resource Worktree_object,
     Enif_keep_resource (Repository_object \<lparr>repo = 1\<rparr>)])"
  by (simp add: sample_defs nif_defs)

text \<open>
  C2. Under the version gate both NIFs should return the error for an unsupported engine
  version, without calling the engine. Compiled against libgit2 0.26 they call nothing, but
  what they return is the message tagged with the atom \<open>ok\<close>, which is not an error value.
\<close>

theorem version_gate_returns_ok_tuple:
  "geef_worktree_add old_world sample_repo (Binary ''feature-x'') (Binary ''/tmp/wt1'')
     atoms_undefined =
     (Term (Tuple2 (Atom ''ok'') (Binary ''libgit2 version >= 0.27.x required'')), []) \<and>
   geef_worktree_prune old_world (Resource (Worktree_resource sample_handle)) =
     (Term (Tuple2 (Atom ''ok'') (Binary ''libgit2 version >= 0.27.x required'')), []) \<and>
   \<not> is_error (Term (Tuple2 (Atom ''ok'') (Binary ''libgit2 version >= 0.27.x required'')))"
  by (simp add: sample_defs nif_defs)

text \<open>
  C3. The resolved reference should be freed before the creation call returns, on every
  path. When the engine refuses to create the worktree (line 69), the call returns from
  line 71: the reference 7 was looked up and \<open>git_reference_free\<close> is never called.
\<close>

theorem reference_leaked_when_engine_refuses:
  "geef_worktree_add refusing_world sample_repo (Binary ''feature-x'') (Binary ''/tmp/wt1'')
     (Binary ''refs/heads/master'') =
   (Geef_error (Some ''worktree already exists''),
    [Enif_alloc_resource Worktree_object,
     Geef_terminate_binary Name_bin, Geef_terminate_binary Path_bin,
     Geef_terminate_binary Ref_bin,
     Git_reference_lookup 1 ''refs/heads/master'',
     Enif_release_binary Ref_bin,
     Git_worktree_add 1 ''feature-x'' ''/tmp/wt1''
       \<lparr>add_version = 1, add_lock = 0, add_ref = None\<rparr>])"
  by (simp add: sample_defs nif_defs)

text \<open>
  C4. Every failure path should release what was allocated before it, the worktree object
  of line 32 in particular. Neither the return of line 37 (the name is not a binary) nor
  the return of line 71 (the engine refuses) releases the worktree object, and the second
  keeps the two terminated buffers as well.
\<close>

theorem worktree_object_leaked_on_failure:
  "geef_worktree_add sample_world sample_repo (Integer 5) (Binary ''/tmp/wt1'') atoms_undefined =
     (Badarg, [Enif_alloc_resource Worktree_object]) \<and>
   geef_worktree_add refusing_world sample_repo (Binary ''feature-x'') (Binary ''/tmp/wt1'')
     atoms_undefined =
     (Geef_error (Some ''worktree already exists''),
      [Enif_alloc_resource Worktree_object,
       Geef_terminate_binary Name_bin, Geef_terminate_binary Path_bin,
       Git_worktree_add 1 ''feature-x'' ''/tmp/wt1''
         \<lparr>add_version = 1, add_lock = 0, add_ref = None\<rparr>])"
  by (simp add: sample_defs nif_defs)

text \<open>
  C5, as amended. Destroying a worktree handle releases the repository reference it holds
  and then frees the engine-level worktree, each exactly once: these two calls, in this
  order, are all the destructor does.
\<close>

theorem destruction_releases_repository_then_worktree:
  "geef_worktree_free h =
     [Enif_release_resource (Repository_object (owner h)), Git_worktree_free (worktree h)] \<and>
   count_list (geef_worktree_free h) (Enif_release_resource (Repository_object (owner h))) = 1 \<and>
   count_list (geef_worktree_free h) (Git_worktree_free (worktree h)) = 1"
  by (simp add: geef_worktree_free_def)

text \<open>C5 as stated has the engine-level worktree freed first and the repository
  reference released second; the destructor does not run in that order.\<close>

theorem destruction_order_counterexample:
  "geef_worktree_free sample_handle \<noteq>
     [Git_worktree_free (worktree sample_handle),
      Enif_release_resource (Repository_object (owner sample_handle))]"
  by (simp add: geef_worktree_free_def sample_handle_def)




text \<open>
  C7. Every failure should come back as a structured error. When terminating the reference
  name fails (line 57) the call returns the bare atom \<open>error\<close>; the same failure on the
  name (line 39) returns what \<open>geef_oom\<close> builds.
\<close>

theorem bare_error_atom_on_reference_oom:
  "fst (geef_worktree_add ref_oom_world sample_repo (Binary ''feature-x'') (Binary ''/tmp/wt1'')
     (Binary ''refs/heads/master'')) = Term (Atom ''error'') \<and>
   fst (geef_worktree_add name_oom_world sample_repo (Binary ''feature-x'') (Binary ''/tmp/wt1'')
     (Binary ''refs/heads/master'')) = Geef_oom"
  by (simp add: sample_defs nif_defs)

text \<open>
  C8. Whenever the creation fails at some stage (argument validation, reference
  resolution or the engine's worktree creation), the returned value is an error and no
  worktree handle is reachable from it. When no stage fails, a handle is returned.
\<close>

theorem no_handle_on_failure:
  assumes "\<not> version_gate w"
  shows "if creation_fails w argv0 argv1 argv2 argv3
         then is_error (fst (geef_worktree_add w argv0 argv1 argv2 argv3)) \<and>
              returned_handles (fst (geef_worktree_add w argv0 argv1 argv2 argv3)) = []
         else \<not> is_error (fst (geef_worktree_add w argv0 argv1 argv2 argv3)) \<and>
              returned_handles (fst (geef_worktree_add w argv0 argv1 argv2 argv3)) \<noteq> []"
proof (cases "validation_fails w argv0 argv1 argv2 argv3")
  case True
  then have "is_error (fst (geef_worktree_add w argv0 argv1 argv2 argv3)) \<and>
      returned_handles (fst (geef_worktree_add w argv0 argv1 argv2 argv3)) = []"
    using assms
    by (auto simp: geef_worktree_add_def validation_fails_def Let_def atoms_error_def
          create_fails split: option.splits)
  with True show ?thesis by (simp add: creation_fails_def)
next
  case False
  then obtain r nb pb where args: "enif_get_repository argv0 = Some r"
      "enif_inspect_binary argv1 = Some nb" "enif_inspect_binary argv2 = Some pb"
    and allocs: "enif_alloc_resource w" "geef_terminate_binary w Name_bin"
      "geef_terminate_binary w Path_bin"
    by (auto simp: validation_fails_def)
  show ?thesis
  proof (cases "enif_is_identical argv3 atoms_undefined")
    case True
    then have "enif_inspect_binary argv3 = None"
      by (simp add: enif_is_identical_def atoms_undefined_def)
    with True False args allocs assms show ?thesis
      by (simp add: geef_worktree_add_def creation_fails_def resolution_fails_def
            engine_add_fails_def create_fails create_succeeds)
  next
    case undef: False
    with False obtain rb where rb: "enif_inspect_binary argv3 = Some rb"
      "geef_terminate_binary w Ref_bin"
      by (auto simp: validation_fails_def)
    with undef False args allocs assms show ?thesis
      by (simp add: geef_worktree_add_def creation_fails_def resolution_fails_def
            engine_add_fails_def create_fails create_succeeds)
  qed
qed

text \<open>C8 at scenario C of the specification: the reference does not exist.\<close>

theorem no_handle_on_failure_witness:
  "creation_fails sample_world sample_repo (Binary ''bad'') (Binary ''/tmp/wt2'')
     (Binary ''nonexistent-branch'') \<and>
   is_error (fst (geef_worktree_add sample_world sample_repo (Binary ''bad'') (Binary ''/tmp/wt2'')
     (Binary ''nonexistent-branch''))) \<and>
   returned_handles (fst (geef_worktree_add sample_world sample_repo (Binary ''bad'')
     (Binary ''/tmp/wt2'') (Binary ''nonexistent-branch''))) = []"
proof -
  have gate: "\<not> version_gate sample_world"
    by (simp add: version_gate_def sample_world_def)
  have fails: "creation_fails sample_world sample_repo (Binary ''bad'') (Binary ''/tmp/wt2'')
     (Binary ''nonexistent-branch'')"
    by (simp add: creation_fails_def resolution_fails_def sample_defs nif_defs)
  show ?thesis
    using fails no_handle_on_failure [OF gate, of sample_repo "Binary ''bad''"
      "Binary ''/tmp/wt2''" "Binary ''nonexistent-branch''"]
    by simp
qed

text \<open>
  C9, as amended. In a build that has the worktree code, a prune call on a worktree handle
  calls the engine's prune once, on the handle's worktree, with options whose flags are
  \<open>GIT_WORKTREE_PRUNE_VALID\<close> and no other. It returns \<open>ok\<close> exactly when the engine,
  given these options, reports success; when the engine refuses, the call returns the
  engine's error.
\<close>

theorem prune_sets_valid_flag:
  assumes "\<not> version_gate w" and "enif_get_worktree argv0 = Some h"
  shows "\<exists>opts. snd (geef_worktree_prune w argv0) = [Git_worktree_prune (worktree h) opts] \<and>
           prune_flags opts AND GIT_WORKTREE_PRUNE_VALID = GIT_WORKTREE_PRUNE_VALID \<and>
           prune_flags opts = GIT_WORKTREE_PRUNE_VALID \<and>
           (fst (geef_worktree_prune w argv0) = Term atoms_ok) =
             (\<not> isl (git_worktree_prune w (worktree h) opts)) \<and>
           fst (geef_worktree_prune w argv0) =
             (case git_worktree_prune w (worktree h) opts of
                Inl msg \<Rightarrow> Geef_error msg
              | Inr u \<Rightarrow> Term atoms_ok)"
  using assms
  by (auto simp: geef_worktree_prune_def Let_def GIT_WORKTREE_PRUNE_OPTIONS_INIT_def
        split: sum.splits)

text \<open>The amended C9 where the directory of the worktree is gone and the engine prunes
  it.\<close>

theorem prune_sets_valid_flag_witness:
  "snd (geef_worktree_prune deleted_world (Resource (Worktree_resource sample_handle))) =
     [Git_worktree_prune 42 \<lparr>prune_version = 1, prune_flags = 1\<rparr>] \<and>
   fst (geef_worktree_prune deleted_world (Resource (Worktree_resource sample_handle))) =
     Term (Atom ''ok'')"
proof -
  have gate: "\<not> version_gate deleted_world"
    by (simp add: version_gate_def deleted_world_def sample_world_def)
  have arg: "enif_get_worktree (Resource (Worktree_resource sample_handle)) = Some sample_handle"
    by simp
  show ?thesis
    using prune_sets_valid_flag [OF gate arg]
    by (simp add: deleted_world_def sample_defs nif_defs)
qed

text \<open>C9 as stated has every prune of a worktree whose directory is gone succeed. The
  flag is set, but success is the engine's to give: where the engine refuses, here a
  locked worktree, which this flag does not override, the call returns the engine's
  error.\<close>

theorem prune_refused_counterexample:
  "snd (geef_worktree_prune locked_world (Resource (Worktree_resource sample_handle))) =
     [Git_worktree_prune 42 \<lparr>prune_version = 1, prune_flags = 1\<rparr>] \<and>
   fst (geef_worktree_prune locked_world (Resource (Worktree_resource sample_handle))) =
     Geef_error (Some ''not pruning locked working tree'') \<and>
   fst (geef_worktree_prune locked_world (Resource (Worktree_resource sample_handle))) \<noteq>
     Term atoms_ok"
  by (simp add: locked_world_def sample_defs nif_defs)

text \<open>
  C10. On a successful creation with a reference name the reference-name buffer should be
  released exactly once. It is released at line 66, after the lookup, and again at line 79.
\<close>

theorem reference_buffer_released_twice:
  "count_list
     (snd (geef_worktree_add sample_world sample_repo (Binary ''feature-x'') (Binary ''/tmp/wt1'')
        (Binary ''refs/heads/master'')))
     (Enif_release_binary Ref_bin) = 2"
  by (simp add: sample_defs nif_defs)

end
